theory Spec2Isabelle
  imports Main "HOL-Library.Word"
begin

section \<open>The decode pipeline of knoxite (lib/decode.go)\<close>

text \<open>
  A shallow embedding of \<^verbatim>\<open>lib/decode.go\<close>. Go values returned together with an
  error are sums (\<open>Inl\<close> the error) where the source returns an empty value beside
  the error, and pairs where it returns a partial value beside it. Calls into libraries
  (crypto, gzip, Reed-Solomon, the operating system) are parameters gathered in the
  record \<open>env\<close>; the backend is a field of the repository, as in the source.
\<close>

subsection \<open>Data model\<close>

type_synonym byte = "8 word"
type_synonym bytes = "byte list"

text \<open>Go's \<^verbatim>\<open>uint\<close> on a 64-bit target; \<open>+\<close> and \<open>-\<close> wrap around.\<close>

type_synonym uint = "64 word"
type_synonym uint64 = "64 word"

datatype encryption = EncryptionNone | EncryptionAES

datatype compression = CompressionNone | CompressionGZip | CompressionOther

record chunk =
  DataParts :: uint
  ParityParts :: uint
  Size :: int
  DecryptedShaSum :: string
  ShaSum :: string
  Encrypted :: encryption
  Compressed :: compression
  Num :: nat

text \<open>
  The error types of the source, lines 23-65. Errors of the libraries are opaque values
  that carry their message (\<open>ExternalError\<close>); \<open>RuntimeError\<close> is the value of a
  run-time panic of Go itself.
\<close>

datatype error =
    ChunkError nat
  | SeekError int
  | CheckSumError string string string
  | DataReconstructionError chunk uint uint
  | ExternalError string
  | RuntimeError string

text \<open>
  What a call does: it returns, it panics with a value (\<open>None\<close> is Go's
  \<^verbatim>\<open>panic(nil)\<close>), or it never returns because it waits for a mutex that nobody
  will release.
\<close>

datatype 'a outcome = Returns 'a | Panics "error option" | Blocks

type_synonym backend = "chunk \<Rightarrow> nat \<Rightarrow> error + bytes"

record repository =
  Password :: string
  Backend :: backend

text \<open>The backend's \<^verbatim>\<open>LoadChunk(chunk, part)\<close>.\<close>

definition LoadChunk :: "backend \<Rightarrow> chunk \<Rightarrow> nat \<Rightarrow> error + bytes" where
  "LoadChunk be c i = be c i"

datatype archive_type = File | Directory | SymLink

record archive =
  Path :: string
  PointsTo :: string
  Mode :: nat
  ModTime :: int
  UID :: nat
  GID :: nat
  ArcSize :: uint64
  StorageSize :: uint64
  Type :: archive_type
  Chunks :: "chunk list"


subsection \<open>Operating-system calls\<close>

datatype open_flag = O_CREATE | O_WRONLY | O_TRUNC | O_APPEND

datatype oscall =
    MkdirAll string nat
  | Symlink string string
  | OpenFile string "open_flag list" nat
  | Write string bytes
  | Sync string
  | Close string
  | Chtimes string int int
  | Lchown string int int

text \<open>
  The world is the history of the calls made so far, each with the error it returned
  (\<open>None\<close> is \<^verbatim>\<open>nil\<close>). What a call returns is decided by the environment from
  the history and the call.
\<close>

type_synonym oslog = "(oscall \<times> error option) list"

text \<open>
  The environment: \<^verbatim>\<open>Decrypt\<close> and \<^verbatim>\<open>Uncompress\<close> of the package,
  \<^verbatim>\<open>sha256.Sum256\<close>, the Reed-Solomon encoder (\<^verbatim>\<open>New\<close>, and \<^verbatim>\<open>Reconstruct\<close> and
  \<^verbatim>\<open>Join\<close> of the encoder made for the two given numbers), \<^verbatim>\<open>filepath.Join\<close> and
  \<^verbatim>\<open>filepath.Dir\<close>, the results of the operating system, and the method
  \<^verbatim>\<open>ChunkForOffset\<close> of an archive, which is not among the sources.
\<close>

record env =
  Decrypt :: "bytes \<Rightarrow> string \<Rightarrow> error + bytes"
  Uncompress :: "bytes \<Rightarrow> error + bytes"
  sha256_Sum256 :: "bytes \<Rightarrow> bytes"
  rs_New :: "int \<Rightarrow> int \<Rightarrow> error option"
  rs_Reconstruct :: "int \<Rightarrow> int \<Rightarrow> bytes option list \<Rightarrow> error option \<times> bytes option list"
  rs_Join :: "int \<Rightarrow> int \<Rightarrow> bytes option list \<Rightarrow> int \<Rightarrow> error + bytes"
  filepath_Join :: "string \<Rightarrow> string \<Rightarrow> string"
  filepath_Dir :: "string \<Rightarrow> string"
  os_result :: "oslog \<Rightarrow> oscall \<Rightarrow> error option"
  ChunkForOffset :: "archive \<Rightarrow> int \<Rightarrow> error + (nat \<times> int)"

definition os_call :: "env \<Rightarrow> oscall \<Rightarrow> oslog \<Rightarrow> error option \<times> oslog" where
  "os_call E c w = (let r = os_result E w c in (r, w @ [(c, r)]))"

subsection \<open>The codec: decodeChunk\<close>

text \<open>\<^verbatim>\<open>hex.EncodeToString\<close>: two lowercase hexadecimal digits for each byte.\<close>

definition hexdigit :: "nat \<Rightarrow> char" where
  "hexdigit n = ''0123456789abcdef'' ! n"

fun hex_EncodeToString :: "bytes \<Rightarrow> string" where
  "hex_EncodeToString [] = []"
| "hex_EncodeToString (b # bs) =
     hexdigit (unat b div 16) # hexdigit (unat b mod 16) # hex_EncodeToString bs"

text \<open>
  The library calls that \<^verbatim>\<open>decodeChunk\<close> makes, each with the bytes it is given.
  The function returns them in the order made, beside its result.
\<close>

datatype codec_step = CallDecrypt bytes string | CallUncompress bytes | CallSum256 bytes

definition decodeChunk_verify ::
  "env \<Rightarrow> chunk \<Rightarrow> codec_step list \<Rightarrow> bytes \<Rightarrow> codec_step list \<times> (error + bytes)" where
  "decodeChunk_verify E chunk t b =
     (let shadata = sha256_Sum256 E b;
          shasum = hex_EncodeToString shadata
      in if DecryptedShaSum chunk \<noteq> shasum
         then (t @ [CallSum256 b], Inl (CheckSumError ''sha256'' (DecryptedShaSum chunk) shasum))
         else (t @ [CallSum256 b], Inr b))"

definition decodeChunk_uncompress ::
  "env \<Rightarrow> chunk \<Rightarrow> codec_step list \<Rightarrow> bytes \<Rightarrow> codec_step list \<times> (error + bytes)" where
  "decodeChunk_uncompress E chunk t b =
     (if Compressed chunk = CompressionGZip
      then (case Uncompress E b of
              Inl err \<Rightarrow> (t @ [CallUncompress b], Inl err)
            | Inr b' \<Rightarrow> decodeChunk_verify E chunk (t @ [CallUncompress b]) b')
      else decodeChunk_verify E chunk t b)"

text \<open>
  \<^verbatim>\<open>decodeChunk\<close>, lines 86-110: the decryption (lines 88-93), then the rest of the
  body in \<open>decodeChunk_uncompress\<close> (lines 95-100) and \<open>decodeChunk_verify\<close>
  (lines 102-109).
\<close>

definition decodeChunk ::
  "env \<Rightarrow> repository \<Rightarrow> chunk \<Rightarrow> bytes \<Rightarrow> codec_step list \<times> (error + bytes)" where
  "decodeChunk E repository chunk b =
     (if Encrypted chunk = EncryptionAES
      then (case Decrypt E b (Password repository) of
              Inl err \<Rightarrow> ([CallDecrypt b (Password repository)], Inl err)
            | Inr b' \<Rightarrow>
                decodeChunk_uncompress E chunk [CallDecrypt b (Password repository)] b')
      else decodeChunk_uncompress E chunk [] b)"

text \<open>
  The codec as the specification words it: three steps in a fixed order, each optional
  step skipped when the chunk does not ask for it, the first failure ending the decode.
\<close>

definition spec_step_decrypt ::
  "env \<Rightarrow> repository \<Rightarrow> chunk \<Rightarrow> bytes \<Rightarrow> codec_step list \<times> (error + bytes)" where
  "spec_step_decrypt E repository chunk b =
     (if Encrypted chunk = EncryptionAES
      then ([CallDecrypt b (Password repository)], Decrypt E b (Password repository))
      else ([], Inr b))"

definition spec_step_gunzip :: "env \<Rightarrow> chunk \<Rightarrow> bytes \<Rightarrow> codec_step list \<times> (error + bytes)" where
  "spec_step_gunzip E chunk b =
     (if Compressed chunk = CompressionGZip then ([CallUncompress b], Uncompress E b)
      else ([], Inr b))"

definition spec_step_verify :: "env \<Rightarrow> chunk \<Rightarrow> bytes \<Rightarrow> codec_step list \<times> (error + bytes)" where
  "spec_step_verify E chunk b =
     ([CallSum256 b],
      if hex_EncodeToString (sha256_Sum256 E b) = DecryptedShaSum chunk then Inr b
      else Inl (CheckSumError ''sha256'' (DecryptedShaSum chunk)
                  (hex_EncodeToString (sha256_Sum256 E b))))"

definition then_step ::
  "codec_step list \<times> (error + bytes) \<Rightarrow> (bytes \<Rightarrow> codec_step list \<times> (error + bytes)) \<Rightarrow>
   codec_step list \<times> (error + bytes)" where
  "then_step r f =
     (case snd r of Inl e \<Rightarrow> (fst r, Inl e)
      | Inr b \<Rightarrow> (fst r @ fst (f b), snd (f b)))"

definition spec_decode ::
  "env \<Rightarrow> repository \<Rightarrow> chunk \<Rightarrow> bytes \<Rightarrow> codec_step list \<times> (error + bytes)" where
  "spec_decode E repository chunk b =
     then_step (then_step (spec_step_decrypt E repository chunk b) (spec_step_gunzip E chunk))
       (spec_step_verify E chunk)"

subsection \<open>The shard loader: loadChunk\<close>

text \<open>
  The loop of lines 123-153. \<open>i\<close> is Go's \<^verbatim>\<open>int\<close> loop variable,
  \<open>parsFound\<close> a \<^verbatim>\<open>uint\<close>, \<open>parsMissing\<close> an \<^verbatim>\<open>int\<close>; \<open>pars\<close> is the slice of
  shards, \<open>None\<close> for \<^verbatim>\<open>nil\<close>. \<^verbatim>\<open>Reconstruct\<close> receives the slice and may fill
  it, so it returns the slice beside its error. The encoder \<^verbatim>\<open>enc\<close> is identified by
  the two numbers it was made with. The branch after the loop is line 155.
\<close>

function loadChunk_loop ::
  "env \<Rightarrow> repository \<Rightarrow> chunk \<Rightarrow> int \<Rightarrow> bytes option list \<Rightarrow> uint \<Rightarrow> int \<Rightarrow> error + bytes" where
  "loadChunk_loop E repository chunk i pars parsFound parsMissing =
     (if i < sint (DataParts chunk + ParityParts chunk)
      then (case LoadChunk (Backend repository) chunk (nat i) of
              Inl cerr \<Rightarrow>
                loadChunk_loop E repository chunk (i + 1) (pars[nat i := None])
                  parsFound (parsMissing + 1)
            | Inr part \<Rightarrow>
                (if parsFound + 1 \<ge> DataParts chunk
                 then (case (if parsMissing > 0
                             then rs_Reconstruct E (sint (DataParts chunk))
                                    (sint (ParityParts chunk)) (pars[nat i := Some part])
                             else (None, pars[nat i := Some part])) of
                         (Some err, pars') \<Rightarrow>
                           loadChunk_loop E repository chunk (i + 1) pars'
                             (parsFound + 1) parsMissing
                       | (None, pars') \<Rightarrow>
                           (case rs_Join E (sint (DataParts chunk)) (sint (ParityParts chunk))
                                   pars' (Size chunk) of
                              Inl err \<Rightarrow>
                                loadChunk_loop E repository chunk (i + 1) pars'
                                  (parsFound + 1) parsMissing
                            | Inr b \<Rightarrow> snd (decodeChunk E repository chunk b)))
                 else loadChunk_loop E repository chunk (i + 1) (pars[nat i := Some part])
                        (parsFound + 1) parsMissing))
      else Inl (DataReconstructionError chunk parsFound (DataParts chunk - parsFound)))"
  by pat_completeness auto
termination
  by (relation "measure (\<lambda>(E, repository, chunk, i, pars, parsFound, parsMissing).
        nat (sint (DataParts chunk + ParityParts chunk) - i))") auto

declare loadChunk_loop.simps [simp del]

text \<open>
  \<^verbatim>\<open>loadChunk\<close>, lines 112-163. \<^verbatim>\<open>make\<close> panics when the length it is given
  does not fit Go's \<^verbatim>\<open>int\<close>.
\<close>

definition loadChunk :: "env \<Rightarrow> repository \<Rightarrow> chunk \<Rightarrow> (error + bytes) outcome" where
  "loadChunk E repository chunk =
     (if ParityParts chunk > 0
      then (case rs_New E (sint (DataParts chunk)) (sint (ParityParts chunk)) of
              Some err \<Rightarrow> Returns (Inl err)
            | None \<Rightarrow>
                if sint (DataParts chunk + ParityParts chunk) < 0
                then Panics (Some (RuntimeError ''makeslice: len out of range''))
                else Returns (loadChunk_loop E repository chunk 0
                       (replicate (unat (DataParts chunk + ParityParts chunk)) None) 0 0))
      else (case LoadChunk (Backend repository) chunk 0 of
              Inl err \<Rightarrow> Returns (Inl err)
            | Inr b \<Rightarrow> Returns (snd (decodeChunk E repository chunk b))))"





definition shard :: "repository \<Rightarrow> chunk \<Rightarrow> nat \<Rightarrow> bytes option" where
  "shard repository chunk j = (case LoadChunk (Backend repository) chunk j of
     Inl cerr \<Rightarrow> None | Inr part \<Rightarrow> Some part)"



subsection \<open>Archives, statistics and progress\<close>

text \<open>
  Modelled from the spec: \<^verbatim>\<open>Archive.IndexOfChunk\<close> is not among the sources. "The
  method IndexOfChunk(i) returns the position in the sequence whose logical index is i";
  a logical index that no chunk of the archive carries is a \<open>ChunkError\<close>. The logical
  index of a chunk is its field \<open>Num\<close>.
\<close>

fun IndexOfChunk_from :: "chunk list \<Rightarrow> nat \<Rightarrow> nat \<Rightarrow> error + nat" where
  "IndexOfChunk_from [] pos chunkNum = Inl (ChunkError chunkNum)"
| "IndexOfChunk_from (c # cs) pos chunkNum =
     (if Num c = chunkNum then Inr pos else IndexOfChunk_from cs (Suc pos) chunkNum)"

definition IndexOfChunk :: "archive \<Rightarrow> nat \<Rightarrow> error + nat" where
  "IndexOfChunk arc chunkNum = IndexOfChunk_from (Chunks arc) 0 chunkNum"

record stats =
  Files :: uint64
  Dirs :: uint64
  SymLinks :: uint64
  StatSize :: uint64
  StatStorageSize :: uint64
  Transferred :: uint64

definition zero_stats :: stats where
  "zero_stats = \<lparr>Files = 0, Dirs = 0, SymLinks = 0, StatSize = 0, StatStorageSize = 0,
     Transferred = 0\<rparr>"

record progress =
  Item :: "archive option"
  TotalStatistics :: stats
  CurrentItemStats :: stats
  Error :: "error option"

text \<open>
  Modelled from the spec: \<^verbatim>\<open>newProgress\<close> and \<^verbatim>\<open>newProgressError\<close> are not among
  the sources. A progress event is "{archive, totalStats, currentItemStats, error?}";
  \<^verbatim>\<open>newProgress\<close> makes the event of an archive, without an error, and
  \<^verbatim>\<open>newProgressError\<close> makes "a progress event whose error field carries" the error.
\<close>

definition newProgress :: "archive \<Rightarrow> progress" where
  "newProgress arc = \<lparr>Item = Some arc, TotalStatistics = zero_stats,
     CurrentItemStats = zero_stats, Error = None\<rparr>"


text \<open>
  The progress channel is the list of what the producer has done to it, in order, with a
  consumer that takes every event.
\<close>

datatype chan_event = Send progress | CloseChan

record world =
  oslog :: oslog
  chan :: "chan_event list"

definition os :: "env \<Rightarrow> oscall \<Rightarrow> world \<Rightarrow> error option \<times> world" where
  "os E c w = (case os_call E c (oslog w) of (r, l) \<Rightarrow> (r, w\<lparr>oslog := l\<rparr>))"

definition send :: "progress \<Rightarrow> world \<Rightarrow> world" where
  "send p w = w\<lparr>chan := chan w @ [Send p]\<rparr>"


subsection \<open>The archive writer: DecodeArchive\<close>

text \<open>
  The loop of lines 201-222. It ends in \<open>Returns None\<close> when it has run through all
  the chunks, and in \<open>Returns (Some err)\<close> when the function returns \<open>err\<close> from
  inside the loop.
\<close>

function DecodeArchive_loop ::
  "env \<Rightarrow> repository \<Rightarrow> archive \<Rightarrow> string \<Rightarrow> nat \<Rightarrow> progress \<Rightarrow> world \<Rightarrow>
   error option outcome \<times> world" where
  "DecodeArchive_loop E repository arc path i p w =
     (if i < length (Chunks arc)
      then (case IndexOfChunk arc i of
              Inl erri \<Rightarrow> (Returns (Some erri), w)
            | Inr idx \<Rightarrow>
                (case loadChunk E repository (Chunks arc ! idx) of
                   Panics v \<Rightarrow> (Panics v, w)
                 | Blocks \<Rightarrow> (Blocks, w)
                 | Returns (Inl errc) \<Rightarrow> (Returns (Some errc), w)
                 | Returns (Inr b) \<Rightarrow>
                     (case os E (Write path b) w of
                        (Some err, w1) \<Rightarrow> (Returns (Some err), w1)
                      | (None, w1) \<Rightarrow>
                          (let p1 = p\<lparr>TotalStatistics := (TotalStatistics p)
                                        \<lparr>Transferred := Transferred (TotalStatistics p) +
                                           of_nat (length b)\<rparr>,
                                      CurrentItemStats := (CurrentItemStats p)
                                        \<lparr>Transferred := Transferred (CurrentItemStats p) +
                                           of_nat (length b)\<rparr>\<rparr>
                           in DecodeArchive_loop E repository arc path (i + 1) p1
                                (send p1 w1)))))
      else (Returns None, w))"
  by pat_completeness auto
termination
  by (relation "measure (\<lambda>(E, repository, arc, path, i, p, w). length (Chunks arc) - i)") auto

declare DecodeArchive_loop.simps [simp del]

text \<open>Lines 234-235: the ownership is restored and the result of that is the result.\<close>

definition DecodeArchive_chown :: "env \<Rightarrow> archive \<Rightarrow> string \<Rightarrow> world \<Rightarrow> error option outcome \<times> world" where
  "DecodeArchive_chown E arc path w =
     (case os E (Lchown path (int (UID arc)) (int (GID arc))) w of (r, w1) \<Rightarrow> (Returns r, w1))"

text \<open>
  \<^verbatim>\<open>DecodeArchive\<close>, lines 166-236. The results of \<^verbatim>\<open>MkdirAll\<close> for a
  directory, of \<^verbatim>\<open>Symlink\<close>, \<^verbatim>\<open>Sync\<close> and \<^verbatim>\<open>Close\<close> are dropped, as in the
  source. \<open>493\<close> is the mode \<^verbatim>\<open>0755\<close>.
\<close>

definition DecodeArchive ::
  "env \<Rightarrow> repository \<Rightarrow> archive \<Rightarrow> string \<Rightarrow> world \<Rightarrow> error option outcome \<times> world" where
  "DecodeArchive E repository arc path w =
     (let p = newProgress arc in
      if Type arc = Directory
      then (let w1 = snd (os E (MkdirAll path (Mode arc)) w);
                p1 = p\<lparr>TotalStatistics := (TotalStatistics p)
                        \<lparr>Dirs := Dirs (TotalStatistics p) + 1\<rparr>\<rparr>
            in DecodeArchive_chown E arc path (send p1 w1))
      else if Type arc = SymLink
      then (let w1 = snd (os E (Symlink (PointsTo arc) path) w);
                p1 = p\<lparr>TotalStatistics := (TotalStatistics p)
                        \<lparr>SymLinks := SymLinks (TotalStatistics p) + 1\<rparr>\<rparr>
            in DecodeArchive_chown E arc path (send p1 w1))
      else if Type arc = File
      then (let p1 = p\<lparr>TotalStatistics := (TotalStatistics p)
                        \<lparr>Files := Files (TotalStatistics p) + 1,
                         StatSize := ArcSize arc,
                         StatStorageSize := StorageSize arc\<rparr>\<rparr>
            in case os E (MkdirAll (filepath_Dir E path) 493) (send p1 w) of
                 (Some err, w1) \<Rightarrow> (Returns (Some err), w1)
               | (None, w1) \<Rightarrow>
                   (case os E (OpenFile path [O_CREATE, O_WRONLY] (Mode arc)) w1 of
                      (Some err, w2) \<Rightarrow> (Returns (Some err), w2)
                    | (None, w2) \<Rightarrow>
                        (case DecodeArchive_loop E repository arc path 0 p1 w2 of
                           (Returns None, w3) \<Rightarrow>
                             (let w4 = snd (os E (Sync path) w3);
                                  w5 = snd (os E (Close path) w4)
                              in case os E (Chtimes path (ModTime arc) (ModTime arc)) w5 of
                                   (Some err, w6) \<Rightarrow> (Returns (Some err), w6)
                                 | (None, w6) \<Rightarrow> DecodeArchive_chown E arc path w6)
                         | (r, w3) \<Rightarrow> (r, w3))))
      else DecodeArchive_chown E arc path w)"


definition pwrite :: "bytes \<Rightarrow> nat \<Rightarrow> bytes \<Rightarrow> bytes" where
  "pwrite content pos b = take pos content @ b @ drop (pos + length b) content"

fun on_disk :: "bytes \<Rightarrow> nat \<Rightarrow> bytes list \<Rightarrow> bytes" where
  "on_disk content pos [] = content"
| "on_disk content pos (b # bs) = on_disk (pwrite content pos b) (pos + length b) bs"


subsection \<open>The snapshot decoder: DecodeSnapshot\<close>




subsection \<open>The chunk cache\<close>

text \<open>
  The package variables \<^verbatim>\<open>cache\<close> and \<^verbatim>\<open>mutex\<close> (lines 238-246) are the fields
  \<open>cache\<close> and \<open>locked\<close> of the state. \<open>loads\<close> records the calls of
  \<^verbatim>\<open>loadChunk\<close> made by the functions that use the cache, \<open>stdout\<close> the lines
  printed, \<open>spawned\<close> the goroutines started by \<^verbatim>\<open>ReadArchive\<close>, each a pending call
  of \<^verbatim>\<open>readArchiveChunk\<close>.
\<close>

record cstate =
  cache :: "string \<Rightarrow> bytes option"
  locked :: bool
  loads :: "chunk list"
  stdout :: "string list"
  spawned :: "(repository \<times> archive \<times> nat) list"

text \<open>\<^verbatim>\<open>init\<close>, lines 243-246, and the zero value of the mutex.\<close>

definition init :: cstate where
  "init = \<lparr>cache = Map.empty, locked = False, loads = [], stdout = [], spawned = []\<rparr>"

text \<open>
  \<^verbatim>\<open>mutex.Lock()\<close> takes a free mutex; on a held mutex the caller waits for the
  holder to release it (\<open>None\<close>). \<^verbatim>\<open>mutex.Unlock()\<close> releases it; in the source
  every \<^verbatim>\<open>Unlock\<close> follows a \<^verbatim>\<open>Lock\<close> on the same path.
\<close>

definition mutex_Lock :: "cstate \<Rightarrow> cstate option" where
  "mutex_Lock s = (if locked s then None else Some (s\<lparr>locked := True\<rparr>))"

definition mutex_Unlock :: "cstate \<Rightarrow> cstate" where
  "mutex_Unlock s = s\<lparr>locked := False\<rparr>"

definition call_loadChunk ::
  "env \<Rightarrow> repository \<Rightarrow> chunk \<Rightarrow> cstate \<Rightarrow> (error + bytes) outcome \<times> cstate" where
  "call_loadChunk E repository chunk s =
     (loadChunk E repository chunk, s\<lparr>loads := loads s @ [chunk]\<rparr>)"

text \<open>
  \<^verbatim>\<open>readArchiveChunk\<close>, lines 288-312. The result is the pair of the bytes and the
  error that the source returns.
\<close>

definition readArchiveChunk ::
  "env \<Rightarrow> repository \<Rightarrow> archive \<Rightarrow> nat \<Rightarrow> cstate \<Rightarrow> (bytes \<times> error option) outcome \<times> cstate" where
  "readArchiveChunk E repository arc chunkNum s =
     (case IndexOfChunk arc chunkNum of
        Inl err \<Rightarrow> (Returns ([], Some err), s)
      | Inr idx \<Rightarrow>
          (case mutex_Lock s of
             None \<Rightarrow> (Blocks, s)
           | Some s1 \<Rightarrow>
               (case cache s1 (ShaSum (Chunks arc ! idx)) of
                  Some cd \<Rightarrow> (Returns ([] @ cd, None), mutex_Unlock s1)
                | None \<Rightarrow>
                    (case call_loadChunk E repository (Chunks arc ! idx) s1 of
                       (Returns (Inl err), s2) \<Rightarrow> (Returns ([], Some err), s2)
                     | (Returns (Inr cd), s2) \<Rightarrow>
                         (Returns ([] @ cd, None),
                          mutex_Unlock
                            (s2\<lparr>cache := (cache s2)(ShaSum (Chunks arc ! idx) \<mapsto> cd)\<rparr>))
                     | (Panics v, s2) \<Rightarrow> (Panics v, s2)
                     | (Blocks, s2) \<Rightarrow> (Blocks, s2)))))"

text \<open>
  The loop of lines 256-277 of \<^verbatim>\<open>DecodeArchiveData\<close>. It ends in
  \<open>Returns (b, Some err)\<close> when the function returns from inside the loop, with the
  bytes gathered so far, and in \<open>Returns (b, None)\<close> when it ran through all the chunks.
\<close>

function DecodeArchiveData_loop ::
  "env \<Rightarrow> repository \<Rightarrow> archive \<Rightarrow> nat \<Rightarrow> bytes \<Rightarrow> cstate \<Rightarrow>
   (bytes \<times> error option) outcome \<times> cstate" where
  "DecodeArchiveData_loop E repository arc i b s =
     (if i < length (Chunks arc)
      then (case IndexOfChunk arc i of
              Inl err \<Rightarrow> (Returns (b, Some err), s)
            | Inr idx \<Rightarrow>
                (case mutex_Lock s of
                   None \<Rightarrow> (Blocks, s)
                 | Some s1 \<Rightarrow>
                     (case cache s1 (ShaSum (Chunks arc ! idx)) of
                        Some cd \<Rightarrow>
                          DecodeArchiveData_loop E repository arc (i + 1) (b @ cd)
                            (mutex_Unlock
                               (s1\<lparr>stdout := stdout s1 @
                                      [''Using cached chunk '' @ ShaSum (Chunks arc ! idx)]\<rparr>))
                      | None \<Rightarrow>
                          (case call_loadChunk E repository (Chunks arc ! idx) s1 of
                             (Returns (Inl err), s2) \<Rightarrow> (Returns (b, Some err), s2)
                           | (Returns (Inr cd), s2) \<Rightarrow>
                               DecodeArchiveData_loop E repository arc (i + 1) (b @ cd)
                                 (mutex_Unlock
                                    (s2\<lparr>cache := (cache s2)(ShaSum (Chunks arc ! idx) \<mapsto> cd)\<rparr>))
                           | (Panics v, s2) \<Rightarrow> (Panics v, s2)
                           | (Blocks, s2) \<Rightarrow> (Blocks, s2)))))
      else (Returns (b, None), s))"
  by pat_completeness auto
termination
  by (relation "measure (\<lambda>(E, repository, arc, i, b, s). length (Chunks arc) - i)") auto

declare DecodeArchiveData_loop.simps [simp del]

text \<open>\<^verbatim>\<open>DecodeArchiveData\<close>, lines 249-286.\<close>

definition DecodeArchiveData ::
  "env \<Rightarrow> repository \<Rightarrow> archive \<Rightarrow> cstate \<Rightarrow> (bytes \<times> stats \<times> error option) outcome \<times> cstate" where
  "DecodeArchiveData E repository arc s =
     (if Type arc = File
      then (case DecodeArchiveData_loop E repository arc 0 [] s of
              (Returns (b, Some err), s1) \<Rightarrow> (Returns (b, zero_stats, Some err), s1)
            | (Returns (b, None), s1) \<Rightarrow>
                (Returns (b,
                   zero_stats\<lparr>StatStorageSize := StatStorageSize zero_stats + StorageSize arc,
                               StatSize := StatSize zero_stats + ArcSize arc,
                               Transferred := Transferred zero_stats + ArcSize arc,
                               Files := Files zero_stats + 1\<rparr>,
                   None), s1)
            | (Panics v, s1) \<Rightarrow> (Panics v, s1)
            | (Blocks, s1) \<Rightarrow> (Blocks, s1))
      else (Returns ([], zero_stats, None), s))"

subsection \<open>The archive reader: ReadArchive\<close>

text \<open>
  The loop of lines 325-348, with what follows it (lines 350-356) in the branch that
  leaves the loop. \<open>size'\<close> (the source's \<^verbatim>\<open>size\<close>) and \<open>internalOffset\<close>
  are Go's \<^verbatim>\<open>int\<close>. The slice expression of line 335 panics when the offset is
  outside the chunk. The goroutine of line 351 is put among the spawned ones.
\<close>

function ReadArchive_loop ::
  "env \<Rightarrow> repository \<Rightarrow> archive \<Rightarrow> int \<Rightarrow> nat \<Rightarrow> int \<Rightarrow> bytes \<Rightarrow> cstate \<Rightarrow>
   (bytes \<times> error option) outcome \<times> cstate" where
  "ReadArchive_loop E repository arc size' neededPart internalOffset b s =
     (if int (length b) < size'
      then (if neededPart \<ge> length (Chunks arc) then (Returns (b, None), s)
            else (case readArchiveChunk E repository arc neededPart s of
                    (Blocks, s1) \<Rightarrow> (Blocks, s1)
                  | (Panics v, s1) \<Rightarrow> (Panics v, s1)
                  | (Returns (cd, err), s1) \<Rightarrow>
                      (if err \<noteq> None \<or> length cd = 0 then (Panics err, s1)
                       else if internalOffset < 0 \<or> internalOffset > int (length cd)
                       then (Panics (Some (RuntimeError ''slice bounds out of range'')), s1)
                       else if err \<noteq> None \<or> length (drop (nat internalOffset) cd) = 0
                       then (Panics err, s1)
                       else ReadArchive_loop E repository arc size' (neededPart + 1) 0
                              (if int (length (drop (nat internalOffset) cd)) + int (length b)
                                    > size'
                               then b @ take (nat (size' - int (length b)))
                                          (drop (nat internalOffset) cd)
                               else b @ drop (nat internalOffset) cd)
                              s1)))
      else (Returns (b, None), s\<lparr>spawned := spawned s @ [(repository, arc, neededPart)]\<rparr>))"
  by pat_completeness auto
termination
  by (relation "measure (\<lambda>(E, repository, arc, size', neededPart, internalOffset, b, s).
        length (Chunks arc) - neededPart)") auto

declare ReadArchive_loop.simps [simp del]

text \<open>\<^verbatim>\<open>ReadArchive\<close>, lines 315-357.\<close>

definition ReadArchive ::
  "env \<Rightarrow> repository \<Rightarrow> archive \<Rightarrow> int \<Rightarrow> int \<Rightarrow> cstate \<Rightarrow>
   (bytes \<times> error option) outcome \<times> cstate" where
  "ReadArchive E repository arc offset size' s =
     (if Type arc = File
      then (case ChunkForOffset E arc offset of
              Inl err \<Rightarrow> (Returns ([], Some err), s)
            | Inr (neededPart, internalOffset) \<Rightarrow>
                ReadArchive_loop E repository arc size' neededPart internalOffset [] s)
      else (Returns ([], None), s))"

text \<open>
  How far a read has come: from a pass of the loop of \<^verbatim>\<open>ReadArchive\<close> that begins
  with the chunk \<open>neededPart\<close>, the offset \<open>internalOffset\<close> into it, the bytes
  \<open>b\<close> gathered and the state \<open>s\<close>, the read comes to the next pass when fewer than
  \<open>size'\<close> bytes are gathered, the chunk is one of the archive, reading it gives
  bytes and no error, and the offset lies inside them; the bytes of the chunk from the
  offset on are then added to those gathered, up to \<open>size'\<close> bytes in all.
\<close>

inductive gathers ::
  "env \<Rightarrow> repository \<Rightarrow> archive \<Rightarrow> int \<Rightarrow> nat \<times> int \<times> bytes \<times> cstate \<Rightarrow>
   nat \<times> int \<times> bytes \<times> cstate \<Rightarrow> bool"
  for E :: env and repository :: repository and arc :: archive and size' :: int
  where
    start: "gathers E repository arc size' st st"
  | pass: "gathers E repository arc size' st (neededPart, internalOffset, b, s) \<Longrightarrow>
           int (length b) < size' \<Longrightarrow>
           neededPart < length (Chunks arc) \<Longrightarrow>
           readArchiveChunk E repository arc neededPart s = (Returns (cd, None), s1) \<Longrightarrow>
           0 \<le> internalOffset \<Longrightarrow>
           nat internalOffset < length cd \<Longrightarrow>
           gathers E repository arc size' st
             (neededPart + 1, 0,
              b @ take (nat (size' - int (length b))) (drop (nat internalOffset) cd), s1)"

subsection \<open>Sequences of reads through the cache\<close>

text \<open>
  The reads that go through the cache, made one after the other, each from the state
  that the one before has left, whether it returned, panicked or waits for the mutex.
\<close>

datatype read_op =
    ReadChunk repository archive nat
  | ArchiveData repository archive
  | Read repository archive int int

definition do_read :: "env \<Rightarrow> read_op \<Rightarrow> cstate \<Rightarrow> cstate" where
  "do_read E rd s =
     (case rd of
        ReadChunk repository arc chunkNum \<Rightarrow> snd (readArchiveChunk E repository arc chunkNum s)
      | ArchiveData repository arc \<Rightarrow> snd (DecodeArchiveData E repository arc s)
      | Read repository arc offset size' \<Rightarrow> snd (ReadArchive E repository arc offset size' s))"

fun run_reads :: "env \<Rightarrow> read_op list \<Rightarrow> cstate \<Rightarrow> cstate" where
  "run_reads E [] s = s"
| "run_reads E (rd # rds) s = run_reads E rds (do_read E rd s)"

text \<open>
  No two recorded loads have the same key, and while the mutex is free every key that
  was loaded is in the cache.
\<close>

definition loads_once :: "cstate \<Rightarrow> bool" where
  "loads_once s =
     (distinct (map ShaSum (loads s)) \<and>
      (\<not> locked s \<longrightarrow> ShaSum ` set (loads s) \<subseteq> dom (cache s)))"

text \<open>
  From \<open>s\<close> to \<open>s'\<close> the loads recorded are kept and those added are of keys that
  were not in the cache of \<open>s\<close>, and every entry of the cache is kept.
\<close>

definition cache_grows :: "cstate \<Rightarrow> cstate \<Rightarrow> bool" where
  "cache_grows s s' =
     ((loads_once s \<longrightarrow> loads_once s') \<and>
      (\<exists>new. loads s' = loads s @ new \<and> (\<forall>c \<in> set new. cache s (ShaSum c) = None)) \<and>
      (\<forall>k v. cache s k = Some v \<longrightarrow> cache s' k = Some v))"

subsection \<open>Concrete inputs\<close>

text \<open>
  An environment to run the functions in: a cipher that gives the bytes back under the
  password \<open>test\<close> and fails to authenticate under any other, a decompression and a
  digest that give their input back, an erasure code whose shards each hold the whole
  chunk, and an operating system whose calls succeed.
\<close>

fun first_shard :: "bytes option list \<Rightarrow> error + bytes" where
  "first_shard [] = Inl (ExternalError ''too few shards given'')"
| "first_shard (None # ps) = first_shard ps"
| "first_shard (Some p # ps) = Inr p"

definition example_env :: env where
  "example_env =
     \<lparr>Decrypt = (\<lambda>b pw. if pw = ''test'' then Inr b
                   else Inl (ExternalError ''cipher: message authentication failed'')),
      Uncompress = (\<lambda>b. Inr b),
      sha256_Sum256 = (\<lambda>b. b),
      rs_New = (\<lambda>n m. if n \<le> 0 \<or> m < 0 \<or> 256 < n + m
                  then Some (ExternalError ''invalid shard numbers'') else None),
      rs_Reconstruct = (\<lambda>n m pars. (None, pars)),
      rs_Join = (\<lambda>n m pars sz. first_shard pars),
      filepath_Join = (\<lambda>dir f. dir @ ''/'' @ f),
      filepath_Dir = (\<lambda>f. ''/restore''),
      os_result = (\<lambda>w c. None),
      ChunkForOffset = (\<lambda>arc off. Inr (0, off))\<rparr>"

definition hello :: bytes where
  "hello = [104, 101, 108, 108, 111, 10]"

definition example_backend :: backend where
  "example_backend = (\<lambda>c i. Inr hello)"

definition failing_backend :: backend where
  "failing_backend = (\<lambda>c i. Inl (ExternalError ''no such chunk''))"

definition example_repository :: repository where
  "example_repository = \<lparr>Password = ''test'', Backend = example_backend\<rparr>"

definition wrong_password_repository :: repository where
  "wrong_password_repository = \<lparr>Password = ''wrongpasswd'', Backend = example_backend\<rparr>"

definition failing_repository :: repository where
  "failing_repository = \<lparr>Password = ''test'', Backend = failing_backend\<rparr>"

definition example_chunk :: chunk where
  "example_chunk = \<lparr>DataParts = 1, ParityParts = 0, Size = 6,
     DecryptedShaSum = ''68656c6c6f0a'', ShaSum = ''c0'', Encrypted = EncryptionAES,
     Compressed = CompressionGZip, Num = 0\<rparr>"

text \<open>
  A chunk in three data and two parity shards, a backend that has the shards 0 and 1
  only, one that has the shards 0, 2 and 3, and a chunk in one data and one parity shard
  that is encrypted.
\<close>

definition rs_chunk :: chunk where
  "rs_chunk = \<lparr>DataParts = 3, ParityParts = 2, Size = 6,
     DecryptedShaSum = ''68656c6c6f0a'', ShaSum = ''c1'', Encrypted = EncryptionNone,
     Compressed = CompressionNone, Num = 0\<rparr>"


definition three_shard_repository :: repository where
  "three_shard_repository = \<lparr>Password = ''test'',
     Backend = (\<lambda>c i. if i \<noteq> 1 \<and> i < 4 then Inr hello else Inl (ExternalError ''no such chunk''))\<rparr>"


text \<open>
  An operating system in which directories and symbolic links cannot be made, one in
  which ownership cannot be changed, a directory, a symbolic link, and the world before
  any call.
\<close>

definition no_mkdir_env :: env where
  "no_mkdir_env = example_env\<lparr>os_result :=
     (\<lambda>w c. case c of MkdirAll d m \<Rightarrow> Some (ExternalError ''mkdir: permission denied'')
            | Symlink t l \<Rightarrow> Some (ExternalError ''symlink: file exists'')
            | _ \<Rightarrow> None)\<rparr>"

definition no_chown_env :: env where
  "no_chown_env = example_env\<lparr>os_result :=
     (\<lambda>w c. case c of Lchown f u g \<Rightarrow> Some (ExternalError ''lchown: operation not permitted'')
            | _ \<Rightarrow> None)\<rparr>"

definition dir_archive :: archive where
  "dir_archive = \<lparr>Path = ''d'', PointsTo = [], Mode = 493, ModTime = 0, UID = 1000,
     GID = 1000, ArcSize = 0, StorageSize = 0, Type = Directory, Chunks = []\<rparr>"

definition link_archive :: archive where
  "link_archive = \<lparr>Path = ''l'', PointsTo = ''/etc/passwd'', Mode = 511, ModTime = 0,
     UID = 1000, GID = 1000, ArcSize = 0, StorageSize = 0, Type = SymLink, Chunks = []\<rparr>"

definition world0 :: world where
  "world0 = \<lparr>oslog = [], chan = []\<rparr>"




text \<open>
  A file of two chunks, stored with the second chunk first, and a backend that holds
  their contents.
\<close>

definition world :: bytes where
  "world = [119, 111, 114, 108, 100, 10]"

definition chunk_hello :: chunk where
  "chunk_hello = \<lparr>DataParts = 1, ParityParts = 0, Size = 6,
     DecryptedShaSum = ''68656c6c6f0a'', ShaSum = ''aa'', Encrypted = EncryptionNone,
     Compressed = CompressionNone, Num = 0\<rparr>"


definition content_repository :: repository where
  "content_repository = \<lparr>Password = ''test'',
     Backend = (\<lambda>c i. if ShaSum c = ''aa'' then Inr hello
                     else if ShaSum c = ''bb'' then Inr world
                     else Inl (ExternalError ''no such chunk''))\<rparr>"


text \<open>
  A file of one chunk; a file whose second chunk the backend does not hold; a file whose
  only chunk decodes to no bytes, with a backend that holds it.
\<close>

definition single_archive :: archive where
  "single_archive = \<lparr>Path = ''s'', PointsTo = [], Mode = 420, ModTime = 0, UID = 1000,
     GID = 1000, ArcSize = 6, StorageSize = 6, Type = File, Chunks = [chunk_hello]\<rparr>"

definition chunk_missing :: chunk where
  "chunk_missing = \<lparr>DataParts = 1, ParityParts = 0, Size = 6,
     DecryptedShaSum = ''776f726c640a'', ShaSum = ''zz'', Encrypted = EncryptionNone,
     Compressed = CompressionNone, Num = 1\<rparr>"

definition broken_archive :: archive where
  "broken_archive = \<lparr>Path = ''b'', PointsTo = [], Mode = 420, ModTime = 0, UID = 1000,
     GID = 1000, ArcSize = 12, StorageSize = 12, Type = File,
     Chunks = [chunk_hello, chunk_missing]\<rparr>"

definition chunk_empty :: chunk where
  "chunk_empty = \<lparr>DataParts = 1, ParityParts = 0, Size = 0,
     DecryptedShaSum = [], ShaSum = ''ee'', Encrypted = EncryptionNone,
     Compressed = CompressionNone, Num = 0\<rparr>"

definition empty_chunk_archive :: archive where
  "empty_chunk_archive = \<lparr>Path = ''e'', PointsTo = [], Mode = 420, ModTime = 0, UID = 1000,
     GID = 1000, ArcSize = 0, StorageSize = 0, Type = File, Chunks = [chunk_empty]\<rparr>"

definition empty_repository :: repository where
  "empty_repository = \<lparr>Password = ''test'', Backend = (\<lambda>c i. Inr [])\<rparr>"

text \<open>
  A file whose second chunk decodes to no bytes, with a backend that holds both chunks.
\<close>

definition chunk_empty_second :: chunk where
  "chunk_empty_second = \<lparr>DataParts = 1, ParityParts = 0, Size = 0,
     DecryptedShaSum = [], ShaSum = ''ee'', Encrypted = EncryptionNone,
     Compressed = CompressionNone, Num = 1\<rparr>"

definition hello_empty_archive :: archive where
  "hello_empty_archive = \<lparr>Path = ''h'', PointsTo = [], Mode = 420, ModTime = 0, UID = 1000,
     GID = 1000, ArcSize = 6, StorageSize = 6, Type = File,
     Chunks = [chunk_hello, chunk_empty_second]\<rparr>"

definition hello_empty_repository :: repository where
  "hello_empty_repository = \<lparr>Password = ''test'',
     Backend = (\<lambda>c i. if ShaSum c = ''aa'' then Inr hello else Inr [])\<rparr>"

section \<open>Properties\<close>

subsection \<open>Machine integers\<close>




lemma replicate_numeral: "replicate (numeral k) x = x # replicate (pred_numeral k) x"
  by (simp add: numeral_eq_Suc)

subsection \<open>The codec\<close>

text \<open>
  C1. For every chunk and input bytes, decodeChunk applies its steps in the fixed order:
  authenticated decryption when the chunk is AES-encrypted, then decompression when it is
  GZip-compressed, then the SHA-256 of the result, whose lowercase hexadecimal digest is
  compared with \<open>DecryptedShaSum\<close>; a difference is a \<open>CheckSumError\<close> carrying
  \<open>sha256\<close>, the expected and the computed digest; on success the decoded plaintext is
  returned. The calls made and the result are those of the three steps of the
  specification composed in that order.
\<close>

theorem decodeChunk_fixed_order:
  "decodeChunk E repository chunk b = spec_decode E repository chunk b"
  by (simp add: decodeChunk_def decodeChunk_uncompress_def decodeChunk_verify_def
      spec_decode_def then_step_def spec_step_decrypt_def spec_step_gunzip_def
      spec_step_verify_def Let_def split: sum.splits)

text \<open>
  The second scenario of the specification, in the example environment: an encrypted and
  compressed chunk is decrypted, then decompressed, then verified.
\<close>

lemma decodeChunk_example:
  "decodeChunk example_env example_repository example_chunk hello =
     ([CallDecrypt hello ''test'', CallUncompress hello, CallSum256 hello], Inr hello)"
  by (simp add: decodeChunk_def decodeChunk_uncompress_def decodeChunk_verify_def
      example_env_def example_repository_def example_chunk_def hello_def hexdigit_def)

text \<open>
  C3. For a chunk with \<open>Encrypted = AES\<close>, when the authenticated decryption of the
  input fails, decodeChunk makes no other call than the decryption (no decompression, no
  hash) and returns the decryption's error itself.
\<close>

theorem decodeChunk_auth_failure_gates:
  assumes "Encrypted chunk = EncryptionAES"
    and "Decrypt E b (Password repository) = Inl err"
  shows "decodeChunk E repository chunk b = ([CallDecrypt b (Password repository)], Inl err)"
  using assms by (simp add: decodeChunk_def)

theorem decodeChunk_auth_failure_gates_witness:
  "Encrypted example_chunk = EncryptionAES \<and>
   Decrypt example_env hello (Password wrong_password_repository) =
     Inl (ExternalError ''cipher: message authentication failed'') \<and>
   decodeChunk example_env wrong_password_repository example_chunk hello =
     ([CallDecrypt hello ''wrongpasswd''],
      Inl (ExternalError ''cipher: message authentication failed''))"
  using decodeChunk_auth_failure_gates [of example_chunk example_env hello
      wrong_password_repository "ExternalError ''cipher: message authentication failed''"]
  by (simp add: example_chunk_def example_env_def wrong_password_repository_def)

subsection \<open>The shard loader\<close>


lemma hex_hello: "hex_EncodeToString hello = ''68656c6c6f0a''"
  by (simp add: hello_def hexdigit_def)




lemma loadChunk_three:
  "loadChunk example_env three_shard_repository rs_chunk = Returns (Inr hello)"
  by (simp add: loadChunk_def loadChunk_loop.simps example_env_def three_shard_repository_def
      rs_chunk_def LoadChunk_def decodeChunk_def decodeChunk_uncompress_def
      decodeChunk_verify_def hex_hello word_le_nat_alt replicate_numeral)




















subsection \<open>The archive writer: directories and symbolic links\<close>

text \<open>
  C9. For a directory and for a symbolic link, what DecodeArchive returns is what the
  final \<^verbatim>\<open>Lchown(UID, GID)\<close> on the target path returned: the calls made are the
  \<^verbatim>\<open>MkdirAll\<close> (the \<^verbatim>\<open>Symlink\<close>), whatever it returns, and then the \<^verbatim>\<open>Lchown\<close>,
  whose result is the result.
\<close>

theorem DecodeArchive_returns_Lchown:
  "(Type arc = Directory \<longrightarrow>
      (let mk = (MkdirAll path (Mode arc), os_result E (oslog w) (MkdirAll path (Mode arc)));
           r = os_result E (oslog w @ [mk]) (Lchown path (int (UID arc)) (int (GID arc)))
       in fst (DecodeArchive E repository arc path w) = Returns r \<and>
          oslog (snd (DecodeArchive E repository arc path w)) =
            oslog w @ [mk, (Lchown path (int (UID arc)) (int (GID arc)), r)])) \<and>
   (Type arc = SymLink \<longrightarrow>
      (let sl = (Symlink (PointsTo arc) path,
                 os_result E (oslog w) (Symlink (PointsTo arc) path));
           r = os_result E (oslog w @ [sl]) (Lchown path (int (UID arc)) (int (GID arc)))
       in fst (DecodeArchive E repository arc path w) = Returns r \<and>
          oslog (snd (DecodeArchive E repository arc path w)) =
            oslog w @ [sl, (Lchown path (int (UID arc)) (int (GID arc)), r)]))"
  by (simp add: DecodeArchive_def DecodeArchive_chown_def os_def os_call_def send_def Let_def
      split: prod.splits)

theorem DecodeArchive_returns_Lchown_witness:
  "Type dir_archive = Directory \<and>
   os_result no_mkdir_env [] (MkdirAll ''/restore/d'' 493) =
     Some (ExternalError ''mkdir: permission denied'') \<and>
   fst (DecodeArchive no_mkdir_env example_repository dir_archive ''/restore/d'' world0) =
     Returns None \<and>
   fst (DecodeArchive no_chown_env example_repository dir_archive ''/restore/d'' world0) =
     Returns (Some (ExternalError ''lchown: operation not permitted'')) \<and>
   Type link_archive = SymLink \<and>
   os_result no_mkdir_env [] (Symlink ''/etc/passwd'' ''/restore/l'') =
     Some (ExternalError ''symlink: file exists'') \<and>
   fst (DecodeArchive no_mkdir_env example_repository link_archive ''/restore/l'' world0) =
     Returns None \<and>
   fst (DecodeArchive no_chown_env example_repository link_archive ''/restore/l'' world0) =
     Returns (Some (ExternalError ''lchown: operation not permitted''))"
  using DecodeArchive_returns_Lchown [of dir_archive "''/restore/d''" no_mkdir_env world0
      example_repository]
    DecodeArchive_returns_Lchown [of dir_archive "''/restore/d''" no_chown_env world0
      example_repository]
    DecodeArchive_returns_Lchown [of link_archive "''/restore/l''" no_mkdir_env world0
      example_repository]
    DecodeArchive_returns_Lchown [of link_archive "''/restore/l''" no_chown_env world0
      example_repository]
  by (simp add: dir_archive_def link_archive_def no_mkdir_env_def no_chown_env_def
      example_env_def world0_def Let_def)

subsection \<open>The snapshot decoder\<close>
















subsection \<open>The archive writer: files\<close>






lemma on_disk_eq:
  "pos \<le> length content \<Longrightarrow>
   on_disk content pos ws = take pos content @ concat ws @ drop (pos + length (concat ws)) content"
proof (induction ws arbitrary: content pos)
  case Nil
  then show ?case by simp
next
  case (Cons b ws)
  have "pos + length b \<le> length (pwrite content pos b)"
    using Cons.prems by (simp add: pwrite_def)
  from Cons.IH [OF this]
  have "on_disk (pwrite content pos b) (pos + length b) ws =
      take (pos + length b) (pwrite content pos b) @ concat ws @
      drop (pos + length b + length (concat ws)) (pwrite content pos b)" .
  moreover have "take (pos + length b) (pwrite content pos b) = take pos content @ b"
    using Cons.prems by (simp add: pwrite_def min_def)
  moreover have "drop (pos + length b + length (concat ws)) (pwrite content pos b) =
      drop (pos + (length b + length (concat ws))) content"
    using Cons.prems by (simp add: pwrite_def min_def ac_simps)
  ultimately show ?case by simp
qed

lemma on_disk_prefix: "take (length (concat ws)) (on_disk old 0 ws) = concat ws"
  by (simp add: on_disk_eq)










subsection \<open>The archive reader\<close>

lemma ReadArchive_loop_load_failure:
  assumes "int (length b) < size'"
    and "neededPart < length (Chunks arc)"
    and "readArchiveChunk E repository arc neededPart s = (Returns (cd, Some err), s1)"
  shows "ReadArchive_loop E repository arc size' neededPart internalOffset b s =
           (Panics (Some err), s1)"
  using assms by (subst ReadArchive_loop.simps) simp

lemma ReadArchive_loop_empty_chunk:
  assumes "int (length b) < size'"
    and "neededPart < length (Chunks arc)"
    and "readArchiveChunk E repository arc neededPart s = (Returns ([], None), s1)"
  shows "ReadArchive_loop E repository arc size' neededPart internalOffset b s =
           (Panics None, s1)"
  using assms by (subst ReadArchive_loop.simps) simp

lemma ReadArchive_loop_pass:
  assumes "int (length b) < size'"
    and "neededPart < length (Chunks arc)"
    and "readArchiveChunk E repository arc neededPart s = (Returns (cd, None), s1)"
    and "0 \<le> internalOffset"
    and "nat internalOffset < length cd"
  shows "ReadArchive_loop E repository arc size' neededPart internalOffset b s =
           ReadArchive_loop E repository arc size' (neededPart + 1) 0
             (b @ take (nat (size' - int (length b))) (drop (nat internalOffset) cd)) s1"
proof -
  from assms(4,5) have io: "\<not> (internalOffset < 0 \<or> internalOffset > int (length cd))"
    and ne: "cd \<noteq> []" "length cd - nat internalOffset \<noteq> 0" by auto
  have "take (nat (size' - int (length b))) (drop (nat internalOffset) cd) =
      drop (nat internalOffset) cd"
    if "\<not> size' < int (length (drop (nat internalOffset) cd)) + int (length b)"
    using that by simp
  with assms(1,2,3) io ne show ?thesis
    by (subst ReadArchive_loop.simps) (simp add: not_le)
qed

lemma gathers_loop:
  assumes "gathers E repository arc size' st st'"
  shows "(case st of (neededPart, internalOffset, b, s) \<Rightarrow>
            ReadArchive_loop E repository arc size' neededPart internalOffset b s) =
         (case st' of (neededPart, internalOffset, b, s) \<Rightarrow>
            ReadArchive_loop E repository arc size' neededPart internalOffset b s)"
  using assms
proof (induction rule: gathers.induct)
  case (start st)
  show ?case by simp
next
  case (pass st neededPart internalOffset b s cd s1)
  from pass.IH ReadArchive_loop_pass [OF pass.hyps(2-6)] show ?case by simp
qed

lemma gathers_ReadArchive:
  assumes "Type arc = File"
    and "ChunkForOffset E arc offset = Inr (firstPart, firstOffset)"
    and "gathers E repository arc size' (firstPart, firstOffset, [], s)
           (neededPart, internalOffset, b, s')"
  shows "ReadArchive E repository arc offset size' s =
           ReadArchive_loop E repository arc size' neededPart internalOffset b s'"
  using assms(1,2) gathers_loop [OF assms(3)] by (simp add: ReadArchive_def)

text \<open>
  C8. For a File archive and a request \<open>(offset, size)\<close>: when the read has come,
  from the chunk and the offset that ChunkForOffset gives, to a chunk of the archive with
  fewer than \<open>size\<close> bytes gathered, and reading that chunk fails, ReadArchive does not
  return: it panics with the error, and neither the bytes gathered so far nor any other
  bytes reach the caller.
\<close>

theorem ReadArchive_load_failure_panics:
  assumes "Type arc = File"
    and "ChunkForOffset E arc offset = Inr (firstPart, firstOffset)"
    and "gathers E repository arc size' (firstPart, firstOffset, [], s)
           (neededPart, internalOffset, b, s')"
    and "int (length b) < size'"
    and "neededPart < length (Chunks arc)"
    and "readArchiveChunk E repository arc neededPart s' = (Returns (cd, Some err), s1)"
  shows "ReadArchive E repository arc offset size' s = (Panics (Some err), s1)"
  using gathers_ReadArchive [OF assms(1-3)] ReadArchive_loop_load_failure [OF assms(4-6)]
  by simp

lemma readArchiveChunk_hello:
  "readArchiveChunk example_env content_repository broken_archive 0 init =
     (Returns (hello, None), init\<lparr>cache := [''aa'' \<mapsto> hello], loads := [chunk_hello]\<rparr>)"
  by (simp add: readArchiveChunk_def IndexOfChunk_def broken_archive_def chunk_hello_def
      chunk_missing_def mutex_Lock_def mutex_Unlock_def init_def call_loadChunk_def
      loadChunk_def LoadChunk_def content_repository_def decodeChunk_def
      decodeChunk_uncompress_def decodeChunk_verify_def example_env_def hex_hello)

lemma readArchiveChunk_missing:
  "readArchiveChunk example_env content_repository broken_archive 1
     (init\<lparr>cache := [''aa'' \<mapsto> hello], loads := [chunk_hello]\<rparr>) =
     (Returns ([], Some (ExternalError ''no such chunk'')),
      init\<lparr>cache := [''aa'' \<mapsto> hello], loads := [chunk_hello, chunk_missing],
           locked := True\<rparr>)"
  by (simp add: readArchiveChunk_def IndexOfChunk_def broken_archive_def chunk_hello_def
      chunk_missing_def mutex_Lock_def mutex_Unlock_def init_def call_loadChunk_def
      loadChunk_def LoadChunk_def content_repository_def)

lemma gathers_hello:
  "gathers example_env content_repository broken_archive 10 (0, 0, [], init)
     (1, 0, hello, init\<lparr>cache := [''aa'' \<mapsto> hello], loads := [chunk_hello]\<rparr>)"
proof -
  have "gathers example_env content_repository broken_archive 10 (0, 0, [], init)
     (0 + 1, 0, [] @ take (nat (10 - int (length ([] :: bytes)))) (drop (nat 0) hello),
      init\<lparr>cache := [''aa'' \<mapsto> hello], loads := [chunk_hello]\<rparr>)"
    by (rule gathers.pass [OF gathers.start _ _ readArchiveChunk_hello])
      (simp_all add: broken_archive_def hello_def)
  then show ?thesis by (simp add: hello_def)
qed

theorem ReadArchive_load_failure_panics_witness:
  "Type broken_archive = File \<and>
   ChunkForOffset example_env broken_archive 0 = Inr (0, 0) \<and>
   gathers example_env content_repository broken_archive 10 (0, 0, [], init)
     (1, 0, hello, init\<lparr>cache := [''aa'' \<mapsto> hello], loads := [chunk_hello]\<rparr>) \<and>
   int (length hello) < 10 \<and>
   1 < length (Chunks broken_archive) \<and>
   readArchiveChunk example_env content_repository broken_archive 1
     (init\<lparr>cache := [''aa'' \<mapsto> hello], loads := [chunk_hello]\<rparr>) =
     (Returns ([], Some (ExternalError ''no such chunk'')),
      init\<lparr>cache := [''aa'' \<mapsto> hello], loads := [chunk_hello, chunk_missing],
           locked := True\<rparr>) \<and>
   ReadArchive example_env content_repository broken_archive 0 10 init =
     (Panics (Some (ExternalError ''no such chunk'')),
      init\<lparr>cache := [''aa'' \<mapsto> hello], loads := [chunk_hello, chunk_missing],
           locked := True\<rparr>)"
proof -
  have ty: "Type broken_archive = File" by (simp add: broken_archive_def)
  have cfo: "ChunkForOffset example_env broken_archive 0 = Inr (0, 0)"
    by (simp add: example_env_def)
  have a: "int (length hello) < 10" by (simp add: hello_def)
  have b: "1 < length (Chunks broken_archive)" by (simp add: broken_archive_def)
  from ReadArchive_load_failure_panics [OF ty cfo gathers_hello a b readArchiveChunk_missing]
    ty cfo gathers_hello a b readArchiveChunk_missing
  show ?thesis by blast
qed

text \<open>
  C10. For a File archive: when the read has come to a chunk of the archive with fewer
  than \<open>size\<close> bytes gathered, and reading that chunk gives no error and no bytes,
  ReadArchive panics, with the value \<^verbatim>\<open>nil\<close> that the error has, instead of returning
  bytes or an error.
\<close>

theorem ReadArchive_empty_chunk_panics_nil:
  assumes "Type arc = File"
    and "ChunkForOffset E arc offset = Inr (firstPart, firstOffset)"
    and "gathers E repository arc size' (firstPart, firstOffset, [], s)
           (neededPart, internalOffset, b, s')"
    and "int (length b) < size'"
    and "neededPart < length (Chunks arc)"
    and "readArchiveChunk E repository arc neededPart s' = (Returns ([], None), s1)"
  shows "ReadArchive E repository arc offset size' s = (Panics None, s1)"
  using gathers_ReadArchive [OF assms(1-3)] ReadArchive_loop_empty_chunk [OF assms(4-6)]
  by simp

lemma readArchiveChunk_hello_first:
  "readArchiveChunk example_env hello_empty_repository hello_empty_archive 0 init =
     (Returns (hello, None), init\<lparr>cache := [''aa'' \<mapsto> hello], loads := [chunk_hello]\<rparr>)"
  by (simp add: readArchiveChunk_def IndexOfChunk_def hello_empty_archive_def chunk_hello_def
      chunk_empty_second_def mutex_Lock_def mutex_Unlock_def init_def call_loadChunk_def
      loadChunk_def LoadChunk_def hello_empty_repository_def decodeChunk_def
      decodeChunk_uncompress_def decodeChunk_verify_def example_env_def hex_hello)

lemma readArchiveChunk_empty_second:
  "readArchiveChunk example_env hello_empty_repository hello_empty_archive 1
     (init\<lparr>cache := [''aa'' \<mapsto> hello], loads := [chunk_hello]\<rparr>) =
     (Returns ([], None),
      init\<lparr>cache := [''aa'' \<mapsto> hello, ''ee'' \<mapsto> []],
           loads := [chunk_hello, chunk_empty_second]\<rparr>)"
  by (simp add: readArchiveChunk_def IndexOfChunk_def hello_empty_archive_def chunk_hello_def
      chunk_empty_second_def mutex_Lock_def mutex_Unlock_def init_def call_loadChunk_def
      loadChunk_def LoadChunk_def hello_empty_repository_def decodeChunk_def
      decodeChunk_uncompress_def decodeChunk_verify_def example_env_def)

lemma gathers_hello_first:
  "gathers example_env hello_empty_repository hello_empty_archive 10 (0, 0, [], init)
     (1, 0, hello, init\<lparr>cache := [''aa'' \<mapsto> hello], loads := [chunk_hello]\<rparr>)"
proof -
  have "gathers example_env hello_empty_repository hello_empty_archive 10 (0, 0, [], init)
     (0 + 1, 0, [] @ take (nat (10 - int (length ([] :: bytes)))) (drop (nat 0) hello),
      init\<lparr>cache := [''aa'' \<mapsto> hello], loads := [chunk_hello]\<rparr>)"
    by (rule gathers.pass [OF gathers.start _ _ readArchiveChunk_hello_first])
      (simp_all add: hello_empty_archive_def hello_def)
  then show ?thesis by (simp add: hello_def)
qed

theorem ReadArchive_empty_chunk_panics_nil_witness:
  "Type hello_empty_archive = File \<and>
   ChunkForOffset example_env hello_empty_archive 0 = Inr (0, 0) \<and>
   gathers example_env hello_empty_repository hello_empty_archive 10 (0, 0, [], init)
     (1, 0, hello, init\<lparr>cache := [''aa'' \<mapsto> hello], loads := [chunk_hello]\<rparr>) \<and>
   int (length hello) < 10 \<and>
   1 < length (Chunks hello_empty_archive) \<and>
   readArchiveChunk example_env hello_empty_repository hello_empty_archive 1
     (init\<lparr>cache := [''aa'' \<mapsto> hello], loads := [chunk_hello]\<rparr>) =
     (Returns ([], None),
      init\<lparr>cache := [''aa'' \<mapsto> hello, ''ee'' \<mapsto> []],
           loads := [chunk_hello, chunk_empty_second]\<rparr>) \<and>
   ReadArchive example_env hello_empty_repository hello_empty_archive 0 10 init =
     (Panics None,
      init\<lparr>cache := [''aa'' \<mapsto> hello, ''ee'' \<mapsto> []],
           loads := [chunk_hello, chunk_empty_second]\<rparr>)"
proof -
  have ty: "Type hello_empty_archive = File" by (simp add: hello_empty_archive_def)
  have cfo: "ChunkForOffset example_env hello_empty_archive 0 = Inr (0, 0)"
    by (simp add: example_env_def)
  have a: "int (length hello) < 10" by (simp add: hello_def)
  have b: "1 < length (Chunks hello_empty_archive)" by (simp add: hello_empty_archive_def)
  from ReadArchive_empty_chunk_panics_nil
      [OF ty cfo gathers_hello_first a b readArchiveChunk_empty_second]
    ty cfo gathers_hello_first a b readArchiveChunk_empty_second
  show ?thesis by blast
qed

subsection \<open>The chunk cache\<close>

lemma cache_grows_refl: "cache_grows s s"
  by (simp add: cache_grows_def)

lemma cache_grows_trans:
  assumes "cache_grows s s'" and "cache_grows s' s''"
  shows "cache_grows s s''"
proof -
  from assms(1) obtain new where n1: "loads s' = loads s @ new"
    "\<forall>c \<in> set new. cache s (ShaSum c) = None" by (auto simp: cache_grows_def)
  from assms(2) obtain new' where n2: "loads s'' = loads s' @ new'"
    "\<forall>c \<in> set new'. cache s' (ShaSum c) = None" by (auto simp: cache_grows_def)
  have keep: "\<forall>k v. cache s k = Some v \<longrightarrow> cache s' k = Some v"
    using assms(1) by (simp add: cache_grows_def)
  have "\<forall>c \<in> set new'. cache s (ShaSum c) = None"
  proof
    fix c assume "c \<in> set new'"
    with n2 have "cache s' (ShaSum c) = None" by simp
    with keep show "cache s (ShaSum c) = None" by (cases "cache s (ShaSum c)") auto
  qed
  with n1 n2 have "loads s'' = loads s @ (new @ new')"
    "\<forall>c \<in> set (new @ new'). cache s (ShaSum c) = None" by auto
  then have "\<exists>new. loads s'' = loads s @ new \<and> (\<forall>c \<in> set new. cache s (ShaSum c) = None)"
    by blast
  with assms show ?thesis by (simp add: cache_grows_def)
qed

lemma cache_grows_same:
  "loads s' = loads s \<Longrightarrow> cache s' = cache s \<Longrightarrow> locked s' = locked s \<Longrightarrow> cache_grows s s'"
  by (simp add: cache_grows_def loads_once_def)

lemma cache_grows_hit:
  "\<not> locked s \<Longrightarrow> loads s' = loads s \<Longrightarrow> cache s' = cache s \<Longrightarrow> cache_grows s s'"
  by (auto simp add: cache_grows_def loads_once_def)

lemma cache_grows_load_failed:
  assumes "\<not> locked s" and "cache s (ShaSum c) = None"
    and "loads s' = loads s @ [c]" and "cache s' = cache s" and "locked s'"
  shows "cache_grows s s'"
proof -
  have "loads_once s'" if "loads_once s"
  proof -
    from that assms(1) have "ShaSum ` set (loads s) \<subseteq> dom (cache s)"
      by (simp add: loads_once_def)
    with assms(2) have "ShaSum c \<notin> ShaSum ` set (loads s)" by auto
    with that assms(3,5) show ?thesis by (simp add: loads_once_def)
  qed
  moreover have "\<exists>new. loads s' = loads s @ new \<and> (\<forall>c \<in> set new. cache s (ShaSum c) = None)"
    using assms(2,3) by (intro exI [of _ "[c]"]) simp
  ultimately show ?thesis using assms(4) by (simp add: cache_grows_def)
qed

lemma cache_grows_loaded:
  assumes "\<not> locked s" and "cache s (ShaSum c) = None"
    and "loads s' = loads s @ [c]" and "cache s' = (cache s)(ShaSum c \<mapsto> cd)"
  shows "cache_grows s s'"
proof -
  have "loads_once s'" if "loads_once s"
  proof -
    from that assms(1) have sub: "ShaSum ` set (loads s) \<subseteq> dom (cache s)"
      by (simp add: loads_once_def)
    with assms(2) have "ShaSum c \<notin> ShaSum ` set (loads s)" by auto
    with that assms(3,4) sub show ?thesis by (auto simp add: loads_once_def)
  qed
  moreover have "\<exists>new. loads s' = loads s @ new \<and> (\<forall>c \<in> set new. cache s (ShaSum c) = None)"
    using assms(2,3) by (intro exI [of _ "[c]"]) simp
  moreover have "\<forall>k v. cache s k = Some v \<longrightarrow> cache s' k = Some v"
    using assms(2,4) by auto
  ultimately show ?thesis by (simp add: cache_grows_def)
qed

lemma readArchiveChunk_cache_grows:
  "cache_grows s (snd (readArchiveChunk E repository arc chunkNum s))"
proof (cases "IndexOfChunk arc chunkNum")
  case (Inl err)
  then show ?thesis by (simp add: readArchiveChunk_def cache_grows_refl)
next
  case (Inr idx)
  note ix = this
  show ?thesis
  proof (cases "locked s")
    case True
    with ix show ?thesis by (simp add: readArchiveChunk_def mutex_Lock_def cache_grows_refl)
  next
    case False
    note free = this
    show ?thesis
    proof (cases "cache s (ShaSum (Chunks arc ! idx))")
      case (Some cd)
      with ix free show ?thesis
        by (simp add: readArchiveChunk_def mutex_Lock_def mutex_Unlock_def cache_grows_hit)
    next
      case None
      show ?thesis
      proof (cases "loadChunk E repository (Chunks arc ! idx)")
        case (Returns res)
        show ?thesis
        proof (cases res)
          case (Inl err)
          with ix free None Returns show ?thesis
            by (simp add: readArchiveChunk_def mutex_Lock_def call_loadChunk_def
                cache_grows_load_failed [of s "Chunks arc ! idx"])
        next
          case (Inr cd)
          with ix free None Returns show ?thesis
            by (simp add: readArchiveChunk_def mutex_Lock_def mutex_Unlock_def call_loadChunk_def
                cache_grows_loaded [of s "Chunks arc ! idx" _ cd])
        qed
      next
        case (Panics v)
        with ix free None show ?thesis
          by (simp add: readArchiveChunk_def mutex_Lock_def call_loadChunk_def
              cache_grows_load_failed [of s "Chunks arc ! idx"])
      next
        case Blocks
        with ix free None show ?thesis
          by (simp add: readArchiveChunk_def mutex_Lock_def call_loadChunk_def
              cache_grows_load_failed [of s "Chunks arc ! idx"])
      qed
    qed
  qed
qed


lemma DecodeArchiveData_loop_cache_grows:
  "cache_grows s (snd (DecodeArchiveData_loop E repository arc i b s))"
proof (induction E repository arc i b s rule: DecodeArchiveData_loop.induct)
  case (1 E repository arc i b s)
  show ?case
  proof (cases "i < length (Chunks arc)")
    case False
    then show ?thesis
      by (subst DecodeArchiveData_loop.simps) (simp add: cache_grows_refl)
  next
    case True
    note lt = this
    show ?thesis
    proof (cases "IndexOfChunk arc i")
      case (Inl err)
      with lt show ?thesis
        by (subst DecodeArchiveData_loop.simps) (simp add: cache_grows_refl)
    next
      case (Inr idx)
      note ix = this
      let ?c = "Chunks arc ! idx"
      show ?thesis
      proof (cases "locked s")
        case True
        with lt ix show ?thesis
          by (subst DecodeArchiveData_loop.simps) (simp add: mutex_Lock_def cache_grows_refl)
      next
        case False
        note free = this
        then have lk: "mutex_Lock s = Some (s\<lparr>locked := True\<rparr>)" by (simp add: mutex_Lock_def)
        show ?thesis
        proof (cases "cache s (ShaSum ?c)")
          case (Some cd)
          let ?s2 = "mutex_Unlock (s\<lparr>locked := True,
              stdout := stdout s @ [''Using cached chunk '' @ ShaSum ?c]\<rparr>)"
          from Some have c1: "cache (s\<lparr>locked := True\<rparr>) (ShaSum ?c) = Some cd" by simp
          have g1: "cache_grows s ?s2"
            using free by (intro cache_grows_hit) (simp_all add: mutex_Unlock_def)
          from "1.IH"(2) [OF lt ix lk c1]
          have g2: "cache_grows ?s2
              (snd (DecodeArchiveData_loop E repository arc (i + 1) (b @ cd) ?s2))" by simp
          from lt ix lk Some
          have "DecodeArchiveData_loop E repository arc i b s =
              DecodeArchiveData_loop E repository arc (i + 1) (b @ cd) ?s2"
            by (subst DecodeArchiveData_loop.simps) simp
          with cache_grows_trans [OF g1 g2] show ?thesis by simp
        next
          case None
          then have c1: "cache (s\<lparr>locked := True\<rparr>) (ShaSum ?c) = None" by simp
          let ?sl = "s\<lparr>locked := True, loads := loads s @ [?c]\<rparr>"
          have cl: "call_loadChunk E repository ?c (s\<lparr>locked := True\<rparr>) =
              (loadChunk E repository ?c, ?sl)" by (simp add: call_loadChunk_def)
          have gf: "cache_grows s ?sl"
            using free None by (intro cache_grows_load_failed [of s ?c]) simp_all
          show ?thesis
          proof (cases "loadChunk E repository ?c")
            case (Returns res)
            show ?thesis
            proof (cases res)
              case (Inl err)
              with lt ix lk None cl Returns gf show ?thesis
                by (subst DecodeArchiveData_loop.simps) simp
            next
              case (Inr cd)
              let ?s2 = "mutex_Unlock (?sl\<lparr>cache := (cache ?sl)(ShaSum ?c \<mapsto> cd)\<rparr>)"
              have g1: "cache_grows s ?s2"
                using free None
                by (intro cache_grows_loaded [of s ?c _ cd]) (simp_all add: mutex_Unlock_def)
              from "1.IH"(1) [OF lt ix lk c1 cl [symmetric] Returns Inr]
              have g2: "cache_grows ?s2
                  (snd (DecodeArchiveData_loop E repository arc (i + 1) (b @ cd) ?s2))" by simp
              from lt ix lk None cl Returns Inr
              have "DecodeArchiveData_loop E repository arc i b s =
                  DecodeArchiveData_loop E repository arc (i + 1) (b @ cd) ?s2"
                by (subst DecodeArchiveData_loop.simps) simp
              with cache_grows_trans [OF g1 g2] show ?thesis by simp
            qed
          next
            case (Panics v)
            with lt ix lk None cl gf show ?thesis
              by (subst DecodeArchiveData_loop.simps) simp
          next
            case Blocks
            with lt ix lk None cl gf show ?thesis
              by (subst DecodeArchiveData_loop.simps) simp
          qed
        qed
      qed
    qed
  qed
qed

lemma DecodeArchiveData_cache_grows:
  "cache_grows s (snd (DecodeArchiveData E repository arc s))"
proof (cases "Type arc = File")
  case False
  then show ?thesis by (simp add: DecodeArchiveData_def cache_grows_refl)
next
  case True
  have "snd (DecodeArchiveData E repository arc s) =
      snd (DecodeArchiveData_loop E repository arc 0 [] s)"
    using True
    by (simp add: DecodeArchiveData_def split: prod.splits outcome.splits option.splits)
  then show ?thesis by (simp add: DecodeArchiveData_loop_cache_grows)
qed


lemma ReadArchive_loop_cache_grows:
  "cache_grows s (snd (ReadArchive_loop E repository arc size' neededPart internalOffset b s))"
proof (induction E repository arc size' neededPart internalOffset b s
    rule: ReadArchive_loop.induct)
  case (1 E repository arc size' neededPart internalOffset b s)
  obtain out s1 where rd: "readArchiveChunk E repository arc neededPart s = (out, s1)"
    by (cases "readArchiveChunk E repository arc neededPart s")
  from readArchiveChunk_cache_grows [of s E repository arc neededPart] rd
  have g1: "cache_grows s s1" by simp
  show ?case
  proof (cases "int (length b) < size' \<and> neededPart < length (Chunks arc)")
    case False
    then show ?thesis
      by (subst ReadArchive_loop.simps)
        (auto intro: cache_grows_refl cache_grows_same)
  next
    case True
    then have lt: "int (length b) < size'" and inr: "\<not> length (Chunks arc) \<le> neededPart"
      by simp_all
    show ?thesis
    proof (cases out)
      case Blocks
      with lt inr rd g1 show ?thesis by (subst ReadArchive_loop.simps) simp
    next
      case (Panics v)
      with lt inr rd g1 show ?thesis by (subst ReadArchive_loop.simps) simp
    next
      case (Returns res)
      obtain cd err where res: "res = (cd, err)" by (cases res)
      let ?d = "drop (nat internalOffset) cd"
      let ?b = "if int (length ?d) + int (length b) > size'
                then b @ take (nat (size' - int (length b))) ?d else b @ ?d"
      show ?thesis
      proof (cases "err \<noteq> None \<or> length cd = 0 \<or> internalOffset < 0 \<or>
          internalOffset > int (length cd) \<or> length ?d = 0")
        case True
        with lt inr rd Returns res g1 show ?thesis
          by (subst ReadArchive_loop.simps) auto
      next
        case False
        then have c1: "\<not> (err \<noteq> None \<or> length cd = 0)"
          and c2: "\<not> (internalOffset < 0 \<or> internalOffset > int (length cd))"
          and c3: "\<not> (err \<noteq> None \<or> length ?d = 0)" by auto
        from "1.IH" [OF lt inr rd [symmetric] Returns res [symmetric] c1 c2 c3]
        have g2: "cache_grows s1
            (snd (ReadArchive_loop E repository arc size' (neededPart + 1) 0 ?b s1))" .
        from lt inr rd Returns res c1 c2 c3
        have "ReadArchive_loop E repository arc size' neededPart internalOffset b s =
            ReadArchive_loop E repository arc size' (neededPart + 1) 0 ?b s1"
          by (subst ReadArchive_loop.simps) simp
        with cache_grows_trans [OF g1 g2] show ?thesis by simp
      qed
    qed
  qed
qed

lemma ReadArchive_cache_grows:
  "cache_grows s (snd (ReadArchive E repository arc offset size' s))"
  by (auto simp add: ReadArchive_def cache_grows_refl ReadArchive_loop_cache_grows
      split: sum.splits)

lemma do_read_cache_grows: "cache_grows s (do_read E rd s)"
  by (cases rd)
    (simp_all add: do_read_def readArchiveChunk_cache_grows DecodeArchiveData_cache_grows
      ReadArchive_cache_grows)

lemma run_reads_cache_grows: "cache_grows s (run_reads E rds s)"
proof (induction rds arbitrary: s)
  case Nil
  show ?case by (simp add: cache_grows_refl)
next
  case (Cons rd rds)
  from cache_grows_trans [OF do_read_cache_grows Cons.IH] show ?case by simp
qed

lemma loads_once_init: "loads_once init"
  by (simp add: loads_once_def init_def)

lemma distinct_count_le_1:
  "distinct (map f xs) \<Longrightarrow> length (filter (\<lambda>x. f x = k) xs) \<le> 1"
proof (induction xs)
  case Nil
  then show ?case by simp
next
  case (Cons a xs)
  show ?case
  proof (cases "f a = k")
    case True
    from Cons.prems have "f a \<notin> f ` set xs" by simp
    with True have "\<forall>x \<in> set xs. f x \<noteq> k" by blast
    then have "filter (\<lambda>x. f x = k) xs = []" by (simp add: filter_empty_conv)
    with True show ?thesis by simp
  next
    case False
    with Cons show ?thesis by simp
  qed
qed

lemma readArchiveChunk_hit:
  assumes "IndexOfChunk arc chunkNum = Inr idx"
    and "cache s (ShaSum (Chunks arc ! idx)) = Some cd"
    and "\<not> locked s"
  shows "readArchiveChunk E repository arc chunkNum s = (Returns (cd, None), s)"
  using assms by (simp add: readArchiveChunk_def mutex_Lock_def mutex_Unlock_def)

text \<open>
  What the cache keeps on every path. Across any sequence of reads through the cache,
  begun with the empty cache, no key is loaded more than once; a read loads no chunk whose
  key is in the cache when the read begins, and removes or changes no entry of the cache.
\<close>

lemma loads_at_most_once:
  "length (filter (\<lambda>c. ShaSum c = k) (loads (run_reads E rds init))) \<le> 1 \<and>
   (\<exists>new. loads (do_read E rd s) = loads s @ new \<and>
      (\<forall>c \<in> set new. cache s (ShaSum c) = None)) \<and>
   (\<forall>key v. cache s key = Some v \<longrightarrow> cache (do_read E rd s) key = Some v)"
proof -
  from run_reads_cache_grows [of init E rds] loads_once_init
  have "loads_once (run_reads E rds init)" by (simp add: cache_grows_def)
  then have "distinct (map ShaSum (loads (run_reads E rds init)))"
    by (simp add: loads_once_def)
  then have "length (filter (\<lambda>c. ShaSum c = k) (loads (run_reads E rds init))) \<le> 1"
    by (rule distinct_count_le_1)
  moreover from do_read_cache_grows [of s E rd]
  have "\<exists>new. loads (do_read E rd s) = loads s @ new \<and>
      (\<forall>c \<in> set new. cache s (ShaSum c) = None)"
    and "\<forall>key v. cache s key = Some v \<longrightarrow> cache (do_read E rd s) key = Some v"
    by (simp_all add: cache_grows_def)
  ultimately show ?thesis by blast
qed

text \<open>
  C7 fails after a loader has failed. The first read loads the chunk with the key
  \<open>aa\<close> and stores its plaintext in the cache; the second read, of a chunk that the
  backend does not hold, returns the loader's error with the mutex held; every read of a
  chunk with the key \<open>aa\<close> after that, by \<^verbatim>\<open>readArchiveChunk\<close> as by
  \<^verbatim>\<open>DecodeArchiveData\<close>, waits for the mutex and never returns the cached plaintext.
  It calls loadChunk no more, as the claim says.
\<close>

theorem cached_read_blocks_after_load_failure:
  "run_reads example_env
     [ReadChunk content_repository broken_archive 0,
      ReadChunk content_repository broken_archive 1] init =
     init\<lparr>cache := [''aa'' \<mapsto> hello], loads := [chunk_hello, chunk_missing],
          locked := True\<rparr> \<and>
   ShaSum (Chunks broken_archive ! 0) = ''aa'' \<and>
   ShaSum (Chunks single_archive ! 0) = ''aa'' \<and>
   readArchiveChunk example_env content_repository broken_archive 0
     (init\<lparr>cache := [''aa'' \<mapsto> hello], loads := [chunk_hello, chunk_missing],
           locked := True\<rparr>) =
     (Blocks,
      init\<lparr>cache := [''aa'' \<mapsto> hello], loads := [chunk_hello, chunk_missing],
           locked := True\<rparr>) \<and>
   DecodeArchiveData example_env content_repository single_archive
     (init\<lparr>cache := [''aa'' \<mapsto> hello], loads := [chunk_hello, chunk_missing],
           locked := True\<rparr>) =
     (Blocks,
      init\<lparr>cache := [''aa'' \<mapsto> hello], loads := [chunk_hello, chunk_missing],
           locked := True\<rparr>)"
proof -
  let ?s = "init\<lparr>cache := [''aa'' \<mapsto> hello], loads := [chunk_hello, chunk_missing],
          locked := True\<rparr>"
  have run: "run_reads example_env
     [ReadChunk content_repository broken_archive 0,
      ReadChunk content_repository broken_archive 1] init = ?s"
    using readArchiveChunk_missing
    by (simp add: do_read_def readArchiveChunk_hello)
  have k: "ShaSum (Chunks broken_archive ! 0) = ''aa''" "ShaSum (Chunks single_archive ! 0) = ''aa''"
    by (simp_all add: broken_archive_def single_archive_def chunk_hello_def)
  have r: "readArchiveChunk example_env content_repository broken_archive 0 ?s = (Blocks, ?s)"
    by (simp add: readArchiveChunk_def IndexOfChunk_def broken_archive_def chunk_hello_def
        mutex_Lock_def)
  have d: "DecodeArchiveData example_env content_repository single_archive ?s = (Blocks, ?s)"
    by (simp add: DecodeArchiveData_def DecodeArchiveData_loop.simps IndexOfChunk_def
        single_archive_def chunk_hello_def mutex_Lock_def)
  from run k r d show ?thesis by blast
qed

subsection \<open>The mutex of the cache\<close>

lemma readArchiveChunk_releases_mutex:
  assumes "\<not> locked s"
    and "readArchiveChunk E repository arc chunkNum s = (Returns (cd, None), s')"
  shows "\<not> locked s'"
  using assms
  by (auto simp add: readArchiveChunk_def mutex_Lock_def mutex_Unlock_def call_loadChunk_def
      split: sum.splits option.splits outcome.splits if_splits)

lemma readArchiveChunk_keeps_mutex:
  assumes "\<not> locked s"
    and "IndexOfChunk arc chunkNum = Inr idx"
    and "cache s (ShaSum (Chunks arc ! idx)) = None"
    and "loadChunk E repository (Chunks arc ! idx) = Returns (Inl err)"
  shows "readArchiveChunk E repository arc chunkNum s =
           (Returns ([], Some err), s\<lparr>locked := True, loads := loads s @ [Chunks arc ! idx]\<rparr>)"
  using assms by (simp add: readArchiveChunk_def mutex_Lock_def call_loadChunk_def)

text \<open>
  C6 fails on the paths where the loader fails. With a backend that does not hold the
  chunk, \<^verbatim>\<open>readArchiveChunk\<close> and \<^verbatim>\<open>DecodeArchiveData\<close> return the loader's error
  with the mutex still held (the returns of lines 303 and 270 come before the
  \<^verbatim>\<open>Unlock\<close> of lines 308 and 275), and the next read, of a chunk that could be loaded,
  waits for the mutex.
\<close>

theorem mutex_held_after_load_failure:
  "readArchiveChunk example_env failing_repository single_archive 0 init =
     (Returns ([], Some (ExternalError ''no such chunk'')),
      init\<lparr>locked := True, loads := [chunk_hello]\<rparr>) \<and>
   DecodeArchiveData example_env failing_repository single_archive init =
     (Returns ([], zero_stats, Some (ExternalError ''no such chunk'')),
      init\<lparr>locked := True, loads := [chunk_hello]\<rparr>) \<and>
   locked (init\<lparr>locked := True, loads := [chunk_hello]\<rparr>) \<and>
   fst (readArchiveChunk example_env example_repository single_archive 0
          (init\<lparr>locked := True, loads := [chunk_hello]\<rparr>)) = Blocks"
  by (simp add: readArchiveChunk_def DecodeArchiveData_def DecodeArchiveData_loop.simps
      IndexOfChunk_def single_archive_def chunk_hello_def mutex_Lock_def init_def
      call_loadChunk_def loadChunk_def LoadChunk_def failing_repository_def
      failing_backend_def)

end
